theory Spec2Isabelle
  imports Complex_Main
begin

section \<open>Offline-first data layer of the NFC payment client\<close>

text \<open>
  The development embeds the data-access layer of the client (the API module with its
  \<open>customerAPI\<close> and \<open>transactionAPI\<close> objects, the API settings module and the
  money and card-id helpers of the formatters module) as state-passing functions over a
  record of everything the module reads and writes: the in-memory \<open>offlineMode\<close> flag,
  the AsyncStorage keys it uses, the log of \<open>fetch\<close> calls, and the environment
  (network, clock, random source) as oracles.

  Conventions.
  \<^item> A JavaScript object used as a structure is a record; a property that may be absent
    is an \<open>option\<close> field (\<open>None\<close> is \<open>undefined\<close>).
  \<^item> An \<open>async\<close> function that may reject returns \<open>error + 'a\<close> (\<open>Inl\<close> is the
    rejection) next to the new state; a \<open>try\<close>/\<open>catch\<close> is a case split on it.
  \<^item> Numbers are exact rationals; amounts in minor units are integers. The binary
    rounding of IEEE doubles is not part of the model.
  \<^item> AsyncStorage is a reliable store: \<open>getItem\<close> and \<open>setItem\<close> do not reject, and
    what \<open>JSON.parse\<close> reads back is what \<open>JSON.stringify\<close> wrote. Each \<open>setItem\<close>
    is recorded in the \<open>writes\<close> log.
  \<^item> A call that the source starts without \<open>await\<close> is run to completion at the place
    where it is started.
\<close>

subsection \<open>Values and strings\<close>

datatype jsval = Undefined | Str string | Num rat

datatype error = Error string

fun show_nat :: "nat \<Rightarrow> string" where
  "show_nat n =
     (if n < 10 then [''0123456789'' ! n]
      else show_nat (n div 10) @ [''0123456789'' ! (n mod 10)])"

declare show_nat.simps [simp del]

definition show_int :: "int \<Rightarrow> string" where
  "show_int i = (if i < 0 then ''-'' @ show_nat (nat (- i)) else show_nat (nat i))"

definition truthy :: "string option \<Rightarrow> bool" where
  "truthy s = (case s of None \<Rightarrow> False | Some v \<Rightarrow> v \<noteq> [])"

subsection \<open>Formatters: money and card ids\<close>

text \<open>\<open>Math.round\<close>: the nearest integer, a tie going up.\<close>

definition Math_round :: "rat \<Rightarrow> int" where
  "Math_round x = \<lfloor>x + 1 / 2\<rfloor>"

text \<open>
  \<open>parseFloat(x.toFixed(2))\<close>: the nearest multiple of one hundredth, a tie going away
  from zero.
\<close>

definition toFixed2 :: "rat \<Rightarrow> rat" where
  "toFixed2 x =
     (if x < 0 then - (of_int \<lfloor>(- x) * 100 + 1 / 2\<rfloor> / 100)
      else of_int \<lfloor>x * 100 + 1 / 2\<rfloor> / 100)"

definition centsToAmount :: "jsval \<Rightarrow> rat" where
  "centsToAmount cents =
     (case cents of Num c \<Rightarrow> toFixed2 (c / 100) | _ \<Rightarrow> 0)"

definition amountToCents :: "jsval \<Rightarrow> int" where
  "amountToCents amount =
     (case amount of Num a \<Rightarrow> Math_round (a * 100) | _ \<Rightarrow> 0)"




subsection \<open>Data model\<close>

record item =
  item_name :: string
  unitPrice :: jsval
  item_amount :: jsval

record transaction =
  transactionId :: "string option"
  customerId :: "int option"
  cardId :: "string option"
  ttype :: "string option"
  amount :: jsval
  items :: "item list option"
  status :: "string option"
  offlineCreated :: "bool option"
  synced :: "bool option"
  syncError :: "string option"
  createdAt :: "string option"

record customer =
  customer_id :: int
  customer_cardId :: "string option"
  customer_name :: "string option"
  balance :: int

record customerData =
  data_cardId :: "string option"
  data_name :: "string option"
  data_email :: "string option"
  data_phone :: "string option"

subsection \<open>Remote Gateway: requests, responses, the network oracle\<close>

datatype payload =
    NoBody
  | CustomerBody customerData
  | BalanceBody int
  | TransactionBody transaction

record request =
  http_method :: string
  url :: string
  body :: payload
  timeout :: "nat option"

text \<open>
  A response carries its status, its text, and what \<open>response.json()\<close> decodes it to as
  a customer or as a transaction (\<open>None\<close>: \<open>json()\<close> rejects).
\<close>

record response =
  http_status :: nat
  body_text :: string
  json_customer :: "customer option"
  json_transaction :: "transaction option"

definition ok :: "response \<Rightarrow> bool" where
  "ok r = (200 \<le> http_status r \<and> http_status r \<le> 299)"

text \<open>
  What the network does with a request: a response after some milliseconds, or a
  rejection of the \<open>fetch\<close> promise with a message.
\<close>

datatype outcome = Reply nat response | Rejected string

record world =
  offlineMode :: bool
  api_url :: "string option"
  offline_transactions :: "transaction list option"
  offline_customers :: "customer list option"
  offline_customers_by_card :: "(string \<rightharpoonup> customer) option"
  writes :: "string list"
  requests :: "request list"
  net :: "nat \<Rightarrow> request \<Rightarrow> outcome"
  date_now :: nat
  math_random :: rat
  iso_now :: string

text \<open>
  \<open>fetch\<close>: the request is logged and the oracle is asked what the network does with
  the \<open>n\<close>-th request of the run. With an abort timer of \<open>ms\<close> milliseconds a reply that
  takes at least as long is replaced by the rejection of the aborted \<open>fetch\<close>.
\<close>

definition fetch :: "request \<Rightarrow> world \<Rightarrow> outcome \<times> world" where
  "fetch r w =
     (let out = net w (length (requests w)) r;
          out' = (case (timeout r, out) of
                    (Some ms, Reply t resp) \<Rightarrow> if t < ms then out else Rejected ''Aborted''
                  | _ \<Rightarrow> out)
      in (out', w\<lparr>requests := requests w @ [r]\<rparr>))"

subsection \<open>API settings and the Connectivity Policy\<close>

definition DEFAULT_API_URL :: string where
  "DEFAULT_API_URL = ''http://10.0.2.2:5000/api''"

definition getApiUrl :: "world \<Rightarrow> string" where
  "getApiUrl w =
     (case api_url w of
        None \<Rightarrow> DEFAULT_API_URL
      | Some u \<Rightarrow> if u = [] then DEFAULT_API_URL else u)"

definition health_request :: "string \<Rightarrow> request" where
  "health_request apiUrl =
     \<lparr>http_method = ''GET'', url = apiUrl @ ''/health'', body = NoBody, timeout = Some 3000\<rparr>"

text \<open>The body of the \<open>try\<close> block of \<open>shouldOperateOffline\<close>.\<close>

definition probe :: "world \<Rightarrow> (error + bool) \<times> world" where
  "probe w =
     (let apiUrl = getApiUrl w;
          (out, w') = fetch (health_request apiUrl) w
      in case out of
           Reply t resp \<Rightarrow> (Inr (\<not> ok resp), w')
         | Rejected msg \<Rightarrow> (Inl (Error msg), w'))"

definition shouldOperateOffline :: "world \<Rightarrow> bool \<times> world" where
  "shouldOperateOffline w =
     (if offlineMode w then (True, w)
      else case probe w of
             (Inr b, w') \<Rightarrow> (b, w')
           | (Inl e, w') \<Rightarrow> (True, w'))"

subsection \<open>Local Cache Store\<close>

definition setItem_customers :: "customer list \<Rightarrow> world \<Rightarrow> world" where
  "setItem_customers cs w =
     w\<lparr>offline_customers := Some cs, writes := writes w @ [''offline_customers'']\<rparr>"

definition setItem_customers_by_card :: "(string \<rightharpoonup> customer) \<Rightarrow> world \<Rightarrow> world" where
  "setItem_customers_by_card m w =
     w\<lparr>offline_customers_by_card := Some m,
       writes := writes w @ [''offline_customers_by_card'']\<rparr>"

definition setItem_transactions :: "transaction list \<Rightarrow> world \<Rightarrow> world" where
  "setItem_transactions ts w =
     w\<lparr>offline_transactions := Some ts, writes := writes w @ [''offline_transactions'']\<rparr>"

definition getAllOfflineCustomers :: "world \<Rightarrow> customer list" where
  "getAllOfflineCustomers w = (case offline_customers w of Some cs \<Rightarrow> cs | None \<Rightarrow> [])"

definition getAllOfflineTransactions :: "world \<Rightarrow> transaction list" where
  "getAllOfflineTransactions w = (case offline_transactions w of Some ts \<Rightarrow> ts | None \<Rightarrow> [])"

text \<open>\<open>Array.prototype.findIndex\<close>: the first position where the test holds, or \<open>-1\<close>.\<close>

fun findIndex :: "('a \<Rightarrow> bool) \<Rightarrow> 'a list \<Rightarrow> int" where
  "findIndex p [] = - 1"
| "findIndex p (x # xs) =
     (if p x then 0 else let r = findIndex p xs in if r < 0 then - 1 else r + 1)"

definition getCardIndex :: "world \<Rightarrow> (string \<rightharpoonup> customer)" where
  "getCardIndex w = (case offline_customers_by_card w of Some m \<Rightarrow> m | None \<Rightarrow> Map.empty)"

definition cacheOfflineCustomer :: "customer \<Rightarrow> world \<Rightarrow> world" where
  "cacheOfflineCustomer customer w =
     (let customers = getAllOfflineCustomers w;
          index = findIndex (\<lambda>c. customer_id c = customer_id customer) customers;
          customers' = (if index \<ge> 0 then customers[nat index := customer]
                        else customers @ [customer]);
          w1 = setItem_customers customers' w
      in if truthy (customer_cardId customer) then
           let cardIndex = getCardIndex w1
           in setItem_customers_by_card
                (cardIndex(the (customer_cardId customer) \<mapsto> customer)) w1
         else w1)"


definition getOfflineCustomerById :: "int \<Rightarrow> world \<Rightarrow> customer option" where
  "getOfflineCustomerById i w = find (\<lambda>c. customer_id c = i) (getAllOfflineCustomers w)"




subsection \<open>Customer Repository\<close>

text \<open>
  The common tail of the online branches: a response that is not ok raises with the
  given message and the status, then \<open>response.json()\<close> is read.
\<close>

definition decode_customer :: "string \<Rightarrow> outcome \<Rightarrow> error + customer" where
  "decode_customer what out =
     (case out of
        Rejected msg \<Rightarrow> Inl (Error msg)
      | Reply t resp \<Rightarrow>
          if \<not> ok resp then Inl (Error (what @ show_nat (http_status resp)))
          else case json_customer resp of
                 None \<Rightarrow> Inl (Error ''JSON Parse error'')
               | Some c \<Rightarrow> Inr c)"


definition register :: "customerData \<Rightarrow> world \<Rightarrow> (error + customer) \<times> world" where
  "register customerData w =
     (let (shouldOffline, w1) = shouldOperateOffline w
      in if shouldOffline
         then (Inl (Error ''Cannot register new customers in offline mode''), w1)
         else
           let apiUrl = getApiUrl w1;
               (out, w2) = fetch \<lparr>http_method = ''POST'', url = apiUrl @ ''/customers'',
                                   body = CustomerBody customerData, timeout = None\<rparr> w1
           in case decode_customer ''Failed to register customer: '' out of
                Inr customer \<Rightarrow> (Inr customer, cacheOfflineCustomer customer w2)
              | Inl e \<Rightarrow> (Inl e, w2))"

definition updateOfflineBalance :: "int \<Rightarrow> jsval \<Rightarrow> world \<Rightarrow> (error + customer) \<times> world" where
  "updateOfflineBalance customerId' amount' w =
     (case getOfflineCustomerById customerId' w of
        None \<Rightarrow>
          (Inl (Error (''Customer '' @ show_int customerId' @ '' not found in offline cache'')), w)
      | Some customer \<Rightarrow>
          let amountInCents = amountToCents amount';
              customer' = customer\<lparr>balance := balance customer + amountInCents\<rparr>
          in (Inr customer', cacheOfflineCustomer customer' w))"

definition balance_request :: "string \<Rightarrow> int \<Rightarrow> int \<Rightarrow> request" where
  "balance_request apiUrl customerId' amountInCents =
     \<lparr>http_method = ''POST'', url = apiUrl @ ''/customers/'' @ show_int customerId' @ ''/balance'',
      body = BalanceBody amountInCents, timeout = None\<rparr>"

definition updateBalance :: "int \<Rightarrow> jsval \<Rightarrow> world \<Rightarrow> (error + customer) \<times> world" where
  "updateBalance customerId' amount' w =
     (let (shouldOffline, w1) = shouldOperateOffline w
      in if shouldOffline then updateOfflineBalance customerId' amount' w1
         else
           let apiUrl = getApiUrl w1;
               amountInCents = amountToCents amount';
               (out, w2) = fetch (balance_request apiUrl customerId' amountInCents) w1
           in case decode_customer ''Failed to update balance: '' out of
                Inr customer \<Rightarrow> (Inr customer, cacheOfflineCustomer customer w2)
              | Inl e \<Rightarrow> updateOfflineBalance customerId' amount' w2)"

subsection \<open>Transaction Repository\<close>

definition createOfflineTransaction :: "transaction \<Rightarrow> world \<Rightarrow> transaction \<times> world" where
  "createOfflineTransaction transactionData w =
     (let tmpId = ''offline-'' @ show_nat (date_now w) @ ''-''
                  @ show_int \<lfloor>math_random w * 1000\<rfloor>;
          transaction' = transactionData\<lparr>transactionId := Some tmpId,
                                         status := Some ''pending'',
                                         offlineCreated := Some True,
                                         createdAt := Some (iso_now w)\<rparr>;
          transactions = getAllOfflineTransactions w
      in (transaction', setItem_transactions (transactions @ [transaction']) w))"

definition toCentsIfNumber :: "jsval \<Rightarrow> jsval" where
  "toCentsIfNumber v = (case v of Num a \<Rightarrow> Num (of_int (amountToCents v)) | _ \<Rightarrow> v)"

definition processData :: "transaction \<Rightarrow> transaction" where
  "processData transactionData =
     (let processedData = transactionData\<lparr>amount := toCentsIfNumber (amount transactionData)\<rparr>
      in case items processedData of
           Some its \<Rightarrow>
             processedData\<lparr>items := Some (map (\<lambda>item. item\<lparr>unitPrice := toCentsIfNumber (unitPrice item),
                                                          item_amount := toCentsIfNumber (item_amount item)\<rparr>) its)\<rparr>
         | None \<Rightarrow> processedData)"

definition create_request :: "string \<Rightarrow> transaction \<Rightarrow> request" where
  "create_request apiUrl processedData =
     \<lparr>http_method = ''POST'', url = apiUrl @ ''/transactions'',
      body = TransactionBody processedData, timeout = None\<rparr>"

definition decode_transaction :: "outcome \<Rightarrow> error + transaction" where
  "decode_transaction out =
     (case out of
        Rejected msg \<Rightarrow> Inl (Error msg)
      | Reply t resp \<Rightarrow>
          if \<not> ok resp
          then Inl (Error (''Failed to create transaction: '' @ show_nat (http_status resp)
                           @ '' - '' @ body_text resp))
          else case json_transaction resp of
                 None \<Rightarrow> Inl (Error ''JSON Parse error'')
               | Some t \<Rightarrow> Inr t)"

definition processTransaction :: "bool \<Rightarrow> transaction \<Rightarrow> world \<Rightarrow> transaction \<times> world" where
  "processTransaction shouldOffline transactionData w =
     (let processedData = processData transactionData
      in if shouldOffline then createOfflineTransaction processedData w
         else
           let apiUrl = getApiUrl w;
               (out, w1) = fetch (create_request apiUrl processedData) w
           in case decode_transaction out of
                Inr t \<Rightarrow> (t, w1)
              | Inl e \<Rightarrow> createOfflineTransaction processedData w1)"

text \<open>The guard \<open>transaction.customerId\<close>: present and not zero.\<close>

definition hasCustomerId :: "transaction \<Rightarrow> bool" where
  "hasCustomerId t = (case customerId t of None \<Rightarrow> False | Some i \<Rightarrow> i \<noteq> 0)"

definition create :: "transaction \<Rightarrow> world \<Rightarrow> transaction \<times> world" where
  "create transactionData w =
     (let (shouldOffline, w1) = shouldOperateOffline w;
          (transaction', w2) = processTransaction shouldOffline transactionData w1
      in if hasCustomerId transaction' then
           let amount' = - 1 * centsToAmount (amount transaction')
           in case updateBalance (the (customerId transaction')) (Num amount') w2 of
                (Inr c, w3) \<Rightarrow> (transaction', w3)
              | (Inl balanceError, w3) \<Rightarrow> (transaction', w3)
         else (transaction', w2))"

subsection \<open>Sync Engine\<close>

record sync_results =
  success :: nat
  failed :: nat
  total :: nat

definition isPending :: "transaction \<Rightarrow> bool" where
  "isPending t = (offlineCreated t = Some True \<and> status t = Some ''pending'')"

text \<open>
  \<open>transactions.filter(...)\<close> yields references into \<open>transactions\<close>, and the loop
  mutates the objects through them: the selection is the list of positions.
\<close>

definition pendingTransactions :: "transaction list \<Rightarrow> nat list" where
  "pendingTransactions transactions =
     filter (\<lambda>i. isPending (transactions ! i)) [0..<length transactions]"

definition sync_request :: "string \<Rightarrow> transaction \<Rightarrow> request" where
  "sync_request apiUrl transaction' =
     (let syncData = transaction'\<lparr>offlineCreated := None\<rparr>
      in \<lparr>http_method = ''POST'', url = apiUrl @ ''/transactions/sync'',
          body = TransactionBody syncData, timeout = None\<rparr>)"

text \<open>The \<open>try\<close> block of one round of the loop, up to the check of the response.\<close>

definition sync_attempt :: "outcome \<Rightarrow> error + unit" where
  "sync_attempt out =
     (case out of
        Rejected msg \<Rightarrow> Inl (Error msg)
      | Reply t resp \<Rightarrow>
          if \<not> ok resp then Inl (Error (''Server returned '' @ show_nat (http_status resp)))
          else Inr ())"

fun sync_loop ::
  "string \<Rightarrow> nat list \<Rightarrow> transaction list \<Rightarrow> sync_results \<Rightarrow> world
   \<Rightarrow> transaction list \<times> sync_results \<times> world" where
  "sync_loop apiUrl [] transactions results w = (transactions, results, w)"
| "sync_loop apiUrl (i # rest) transactions results w =
     (let transaction' = transactions ! i;
          (out, w1) = fetch (sync_request apiUrl transaction') w
      in case sync_attempt out of
           Inr u \<Rightarrow>
             sync_loop apiUrl rest
               (transactions[i := transaction'\<lparr>status := Some ''completed'', synced := Some True\<rparr>])
               (results\<lparr>success := success results + 1\<rparr>) w1
         | Inl (Error message) \<Rightarrow>
             sync_loop apiUrl rest
               (transactions[i := transaction'\<lparr>syncError := Some message\<rparr>])
               (results\<lparr>failed := failed results + 1\<rparr>) w1)"

declare sync_loop.simps(2) [simp del]

definition syncOfflineTransactions :: "world \<Rightarrow> (error + sync_results) \<times> world" where
  "syncOfflineTransactions w =
     (let (shouldOffline, w1) = shouldOperateOffline w
      in if shouldOffline
         then (Inl (Error ''Cannot sync transactions while in offline mode''), w1)
         else
           let transactions = getAllOfflineTransactions w1;
               pending = pendingTransactions transactions
           in if length pending = 0
              then (Inr \<lparr>success = 0, failed = 0, total = 0\<rparr>, w1)
              else
                let results = \<lparr>success = 0, failed = 0, total = length pending\<rparr>;
                    apiUrl = getApiUrl w1;
                    (transactions', results', w2) =
                       sync_loop apiUrl pending transactions results w1
                in (Inr results', setItem_transactions transactions' w2))"

subsection \<open>Example data\<close>

definition ok_response :: response where
  "ok_response =
     \<lparr>http_status = 200, body_text = ''OK'', json_customer = None, json_transaction = None\<rparr>"

definition net_up :: "nat \<Rightarrow> request \<Rightarrow> outcome" where
  "net_up n r = Reply 120 ok_response"

definition net_slow :: "nat \<Rightarrow> request \<Rightarrow> outcome" where
  "net_slow n r = Reply 4500 ok_response"

definition net_down :: "nat \<Rightarrow> request \<Rightarrow> outcome" where
  "net_down n r = Rejected ''Network request failed''"

definition world0 :: world where
  "world0 = \<lparr>offlineMode = False, api_url = None, offline_transactions = None,
             offline_customers = None, offline_customers_by_card = None, writes = [],
             requests = [], net = net_up, date_now = 1730000000123,
             math_random = 457 / 1000, iso_now = ''2024-10-27T03:33:20.123Z''\<rparr>"

definition ana_data :: customerData where
  "ana_data = \<lparr>data_cardId = Some ''04A1B2C3'', data_name = Some ''Ana'',
               data_email = None, data_phone = None\<rparr>"

definition ana :: customer where
  "ana = \<lparr>customer_id = 7, customer_cardId = Some ''04A1B2C3'', customer_name = Some ''Ana'',
          balance = 5000\<rparr>"



definition payment :: transaction where
  "payment = \<lparr>transactionId = None, customerId = Some 7, cardId = Some ''04A1B2C3'',
              ttype = Some ''payment'', amount = Num (25 / 2), items = None, status = None,
              offlineCreated = None, synced = None, syncError = None, createdAt = None\<rparr>"


definition net_post_fails :: "nat \<Rightarrow> request \<Rightarrow> outcome" where
  "net_post_fails n r =
     (if n = 0 then Reply 120 ok_response
      else if n = 1 then Reply 80 (ok_response\<lparr>http_status := 500\<rparr>)
      else Rejected ''Network request failed'')"

definition world_ana :: world where
  "world_ana = cacheOfflineCustomer ana (world0\<lparr>net := net_down\<rparr>)"

definition queued_payment :: transaction where
  "queued_payment =
     payment\<lparr>amount := Num 1250, transactionId := Some ''offline-1730000000123-457'',
             status := Some ''pending'', offlineCreated := Some True,
             createdAt := Some ''2024-10-27T03:33:20.123Z''\<rparr>"

definition paid_online :: transaction where
  "paid_online = payment\<lparr>transactionId := Some ''tx-1001'', amount := Num 300,
                         status := Some ''completed'',
                         createdAt := Some ''2024-10-26T10:00:00.000Z''\<rparr>"

definition queued_reload :: transaction where
  "queued_reload = queued_payment\<lparr>transactionId := Some ''offline-1730000000999-12'',
                                  ttype := Some ''reload'', amount := Num 800\<rparr>"

definition net_sync :: "nat \<Rightarrow> request \<Rightarrow> outcome" where
  "net_sync n r =
     (if n = 1 then Reply 90 ok_response
      else if n = 2 then Reply 70 (ok_response\<lparr>http_status := 500\<rparr>)
      else Reply 120 ok_response)"

definition world_sync :: world where
  "world_sync = world0\<lparr>offline_transactions := Some [queued_payment, paid_online, queued_reload],
                       net := net_sync\<rparr>"

section \<open>Properties\<close>

subsection \<open>Connectivity Policy\<close>

lemma fetch_snd: "snd (fetch r w) = w\<lparr>requests := requests w @ [r]\<rparr>"
  by (simp add: fetch_def Let_def)

lemma fetch_fst_no_timeout:
  "timeout r = None \<Longrightarrow> fst (fetch r w) = net w (length (requests w)) r"
  by (simp add: fetch_def Let_def)

lemma probe_snd: "snd (probe w) = w\<lparr>requests := requests w @ [health_request (getApiUrl w)]\<rparr>"
  by (simp add: probe_def fetch_def Let_def split: outcome.splits prod.splits option.splits)

lemma probe_fst:
  "fst (probe w) =
     (case net w (length (requests w)) (health_request (getApiUrl w)) of
        Reply t resp \<Rightarrow> if t < 3000 then Inr (\<not> ok resp) else Inl (Error ''Aborted'')
      | Rejected msg \<Rightarrow> Inl (Error msg))"
  by (simp add: probe_def fetch_def Let_def health_request_def split: outcome.splits prod.splits option.splits)

lemma shouldOperateOffline_snd:
  "snd (shouldOperateOffline w) =
     (if offlineMode w then w else w\<lparr>requests := requests w @ [health_request (getApiUrl w)]\<rparr>)"
  using probe_snd [of w]
  by (auto simp add: shouldOperateOffline_def split: prod.splits sum.splits)

lemma shouldOperateOffline_fst:
  "fst (shouldOperateOffline w) =
     (offlineMode w \<or>
      (case net w (length (requests w)) (health_request (getApiUrl w)) of
         Reply t resp \<Rightarrow> \<not> (t < 3000 \<and> ok resp)
       | Rejected msg \<Rightarrow> True))"
  using probe_fst [of w]
  by (auto simp add: shouldOperateOffline_def split: prod.splits sum.splits outcome.splits if_splits)

text \<open>
  Claim C4. \<open>shouldOperateOffline\<close> returns true at once, without a probe, when the manual
  offline flag is set. Otherwise it sends one \<open>GET\<close> to the health endpoint of the
  configured base URL with a timer of 3000 ms, and answers false exactly when a reply
  arrives within that time and is a success; a reply that is not a success, a rejected
  request and a reply that comes too late all give true, and a rejection inside the \<open>try\<close>
  block is turned into the value true. Nothing but the request log changes, so no
  decision is kept from one call to the next.
\<close>

theorem C4_shouldOperateOffline:
  "(offlineMode w \<longrightarrow> shouldOperateOffline w = (True, w)) \<and>
   (\<not> offlineMode w \<longrightarrow>
      snd (shouldOperateOffline w)
        = w\<lparr>requests := requests w @ [health_request (getApiUrl w)]\<rparr> \<and>
      health_request (getApiUrl w)
        = \<lparr>http_method = ''GET'', url = getApiUrl w @ ''/health'', body = NoBody, timeout = Some 3000\<rparr> \<and>
      (fst (shouldOperateOffline w) = False \<longleftrightarrow>
         (\<exists>t resp. net w (length (requests w)) (health_request (getApiUrl w)) = Reply t resp
                    \<and> t < 3000 \<and> ok resp)) \<and>
      (\<forall>e w'. probe w = (Inl e, w') \<longrightarrow> shouldOperateOffline w = (True, w')))"
proof (intro conjI impI allI)
  assume "offlineMode w"
  then show "shouldOperateOffline w = (True, w)"
    by (simp add: shouldOperateOffline_def)
next
  assume "\<not> offlineMode w"
  then show "snd (shouldOperateOffline w)
        = w\<lparr>requests := requests w @ [health_request (getApiUrl w)]\<rparr>"
    by (simp add: shouldOperateOffline_snd)
next
  show "health_request (getApiUrl w)
        = \<lparr>http_method = ''GET'', url = getApiUrl w @ ''/health'', body = NoBody, timeout = Some 3000\<rparr>"
    by (simp add: health_request_def)
next
  assume "\<not> offlineMode w"
  then show "fst (shouldOperateOffline w) = False \<longleftrightarrow>
         (\<exists>t resp. net w (length (requests w)) (health_request (getApiUrl w)) = Reply t resp
                    \<and> t < 3000 \<and> ok resp)"
    by (auto simp add: shouldOperateOffline_fst split: outcome.splits)
next
  fix e w'
  assume "\<not> offlineMode w" "probe w = (Inl e, w')"
  then show "shouldOperateOffline w = (True, w')"
    by (simp add: shouldOperateOffline_def)
qed

theorem C4_shouldOperateOffline_witness:
  "offlineMode (world0\<lparr>offlineMode := True\<rparr>) \<and>
   shouldOperateOffline (world0\<lparr>offlineMode := True\<rparr>) = (True, world0\<lparr>offlineMode := True\<rparr>) \<and>
   \<not> offlineMode world0 \<and>
   fst (shouldOperateOffline world0) = False \<and>
   fst (shouldOperateOffline (world0\<lparr>net := net_slow\<rparr>)) = True \<and>
   probe (world0\<lparr>net := net_down\<rparr>)
     = (Inl (Error ''Network request failed''),
        world0\<lparr>net := net_down, requests := [health_request DEFAULT_API_URL]\<rparr>) \<and>
   shouldOperateOffline (world0\<lparr>net := net_down\<rparr>)
     = (True, world0\<lparr>net := net_down, requests := [health_request DEFAULT_API_URL]\<rparr>)"
  using C4_shouldOperateOffline [of "world0\<lparr>offlineMode := True\<rparr>"]
        C4_shouldOperateOffline [of world0]
        C4_shouldOperateOffline [of "world0\<lparr>net := net_slow\<rparr>"]
        C4_shouldOperateOffline [of "world0\<lparr>net := net_down\<rparr>"]
  by (simp add: world0_def net_up_def net_slow_def net_down_def ok_response_def ok_def
        getApiUrl_def probe_def fetch_def health_request_def Let_def)

subsection \<open>Customer registration\<close>

lemma cacheOfflineCustomer_frame:
  "requests (cacheOfflineCustomer c w) = requests w"
  "offline_transactions (cacheOfflineCustomer c w) = offline_transactions w"
  "offlineMode (cacheOfflineCustomer c w) = offlineMode w"
  "api_url (cacheOfflineCustomer c w) = api_url w"
  "net (cacheOfflineCustomer c w) = net w"
  by (simp_all add: cacheOfflineCustomer_def setItem_customers_def setItem_customers_by_card_def Let_def)

text \<open>
  Claim C6. When the Connectivity Policy answers offline, \<open>register\<close> rejects with the
  message that customers cannot be registered in offline mode, sends nothing but the
  health probe, and writes nothing. There is no queue and no fallback: whenever
  \<open>register\<close> rejects, whatever the cause, no key of the store has been written.
\<close>

theorem C6_register_offline:
  "(fst (shouldOperateOffline w) \<longrightarrow>
      register customerData w
        = (Inl (Error ''Cannot register new customers in offline mode''),
           snd (shouldOperateOffline w)) \<and>
      set (requests (snd (register customerData w)))
        \<subseteq> set (requests w) \<union> {health_request (getApiUrl w)}) \<and>
   (\<forall>e. fst (register customerData w) = Inl e \<longrightarrow>
      writes (snd (register customerData w)) = writes w \<and>
      offline_customers (snd (register customerData w)) = offline_customers w \<and>
      offline_customers_by_card (snd (register customerData w)) = offline_customers_by_card w \<and>
      offline_transactions (snd (register customerData w)) = offline_transactions w)"
proof (intro conjI impI allI)
  assume off: "fst (shouldOperateOffline w)"
  then show reg: "register customerData w
        = (Inl (Error ''Cannot register new customers in offline mode''),
           snd (shouldOperateOffline w))"
    by (cases "shouldOperateOffline w") (simp add: register_def)
  show "set (requests (snd (register customerData w)))
        \<subseteq> set (requests w) \<union> {health_request (getApiUrl w)}"
    by (auto simp add: reg shouldOperateOffline_snd)
next
  fix e
  assume "fst (register customerData w) = Inl e"
  then have "snd (register customerData w) = snd (shouldOperateOffline w) \<or>
     snd (register customerData w)
       = snd (fetch \<lparr>http_method = ''POST'', url = getApiUrl (snd (shouldOperateOffline w)) @ ''/customers'',
                     body = CustomerBody customerData, timeout = None\<rparr> (snd (shouldOperateOffline w)))"
    by (auto simp add: register_def Let_def split: prod.splits sum.splits if_splits)
  then show "writes (snd (register customerData w)) = writes w"
    "offline_customers (snd (register customerData w)) = offline_customers w"
    "offline_customers_by_card (snd (register customerData w)) = offline_customers_by_card w"
    "offline_transactions (snd (register customerData w)) = offline_transactions w"
    by (auto simp add: fetch_snd shouldOperateOffline_snd)
qed

theorem C6_register_offline_witness:
  "fst (shouldOperateOffline (world0\<lparr>net := net_down\<rparr>)) \<and>
   fst (register ana_data
          (world0\<lparr>net := net_down\<rparr>))
     = Inl (Error ''Cannot register new customers in offline mode'') \<and>
   writes (snd (register ana_data
          (world0\<lparr>net := net_down\<rparr>))) = []"
  using C6_register_offline [of "world0\<lparr>net := net_down\<rparr>"
          "ana_data"]
  by (auto simp add: shouldOperateOffline_fst world0_def net_down_def)

subsection \<open>Local Cache Store: customers\<close>















subsection \<open>Card ids as keys\<close>









subsection \<open>Transaction creation\<close>

lemma shouldOperateOffline_frame [simp]:
  "offlineMode (snd (shouldOperateOffline w)) = offlineMode w"
  "api_url (snd (shouldOperateOffline w)) = api_url w"
  "offline_transactions (snd (shouldOperateOffline w)) = offline_transactions w"
  "offline_customers (snd (shouldOperateOffline w)) = offline_customers w"
  "offline_customers_by_card (snd (shouldOperateOffline w)) = offline_customers_by_card w"
  "writes (snd (shouldOperateOffline w)) = writes w"
  "net (snd (shouldOperateOffline w)) = net w"
  "date_now (snd (shouldOperateOffline w)) = date_now w"
  "math_random (snd (shouldOperateOffline w)) = math_random w"
  "iso_now (snd (shouldOperateOffline w)) = iso_now w"
  by (simp_all add: shouldOperateOffline_snd)

lemma getAllOfflineTransactions_cong:
  "offline_transactions w' = offline_transactions w \<Longrightarrow>
     getAllOfflineTransactions w' = getAllOfflineTransactions w"
  by (simp add: getAllOfflineTransactions_def)

lemma updateOfflineBalance_frame:
  "requests (snd (updateOfflineBalance i a w)) = requests w"
  "offline_transactions (snd (updateOfflineBalance i a w)) = offline_transactions w"
  by (simp_all add: updateOfflineBalance_def cacheOfflineCustomer_frame Let_def split: option.splits)

lemma fetch_frame [simp]:
  "offlineMode (snd (fetch r w)) = offlineMode w"
  "api_url (snd (fetch r w)) = api_url w"
  "offline_transactions (snd (fetch r w)) = offline_transactions w"
  "offline_customers (snd (fetch r w)) = offline_customers w"
  "offline_customers_by_card (snd (fetch r w)) = offline_customers_by_card w"
  "writes (snd (fetch r w)) = writes w"
  "net (snd (fetch r w)) = net w"
  "date_now (snd (fetch r w)) = date_now w"
  "math_random (snd (fetch r w)) = math_random w"
  "iso_now (snd (fetch r w)) = iso_now w"
  "requests (snd (fetch r w)) = requests w @ [r]"
  by (simp_all add: fetch_snd)

lemma updateBalance_transactions:
  "offline_transactions (snd (updateBalance i a w)) = offline_transactions w"
  by (simp add: updateBalance_def Let_def case_prod_beta updateOfflineBalance_frame
        cacheOfflineCustomer_frame split: sum.splits)

lemma getApiUrl_shouldOperateOffline [simp]:
  "getApiUrl (snd (shouldOperateOffline w)) = getApiUrl w"
  by (simp add: getApiUrl_def)

lemma getApiUrl_fetch [simp]: "getApiUrl (snd (fetch r w)) = getApiUrl w"
  by (simp add: getApiUrl_def)

lemma requests_shouldOperateOffline:
  "requests (snd (shouldOperateOffline w)) =
     requests w @ (if offlineMode w then [] else [health_request (getApiUrl w)])"
  by (simp add: shouldOperateOffline_snd)

lemma updateBalance_requests:
  "\<exists>rs. requests (snd (updateBalance i a w)) = requests w @ rs \<and>
        set rs \<subseteq> {health_request (getApiUrl w), balance_request (getApiUrl w) i (amountToCents a)} \<and>
        (fst (shouldOperateOffline w) \<longrightarrow> rs = (if offlineMode w then [] else [health_request (getApiUrl w)]))"
  by (auto simp add: updateBalance_def Let_def case_prod_beta updateOfflineBalance_frame
        cacheOfflineCustomer_frame requests_shouldOperateOffline split: sum.splits)

lemma createOfflineTransaction_fst:
  "fst (createOfflineTransaction pd w) =
     pd\<lparr>transactionId := Some (''offline-'' @ show_nat (date_now w) @ ''-''
                                @ show_int \<lfloor>math_random w * 1000\<rfloor>),
        status := Some ''pending'', offlineCreated := Some True,
        createdAt := Some (iso_now w)\<rparr>"
  by (simp add: createOfflineTransaction_def Let_def)

lemma create_alt:
  "create td w =
     (let b = fst (shouldOperateOffline w);
          w1 = snd (shouldOperateOffline w);
          t = fst (processTransaction b td w1);
          w2 = snd (processTransaction b td w1)
      in (t, if hasCustomerId t
             then snd (updateBalance (the (customerId t)) (Num (- 1 * centsToAmount (amount t))) w2)
             else w2))"
  by (simp add: create_def Let_def case_prod_beta split: sum.splits)







lemma processTransaction_online:
  "processTransaction False td w =
     (let r = create_request (getApiUrl w) (processData td)
      in case decode_transaction (net w (length (requests w)) r) of
           Inr t \<Rightarrow> (t, snd (fetch r w))
         | Inl e \<Rightarrow> createOfflineTransaction (processData td) (snd (fetch r w)))"
  by (simp add: processTransaction_def Let_def case_prod_beta fetch_fst_no_timeout create_request_def)

lemma createOfflineTransaction_frame [simp]:
  "requests (snd (createOfflineTransaction pd w)) = requests w"
  "offlineMode (snd (createOfflineTransaction pd w)) = offlineMode w"
  "api_url (snd (createOfflineTransaction pd w)) = api_url w"
  "net (snd (createOfflineTransaction pd w)) = net w"
  "offline_customers (snd (createOfflineTransaction pd w)) = offline_customers w"
  "offline_customers_by_card (snd (createOfflineTransaction pd w)) = offline_customers_by_card w"
  "getAllOfflineTransactions (snd (createOfflineTransaction pd w))
     = getAllOfflineTransactions w @ [fst (createOfflineTransaction pd w)]"
  by (simp_all add: createOfflineTransaction_def setItem_transactions_def Let_def
        getAllOfflineTransactions_def)

lemma getApiUrl_createOfflineTransaction [simp]:
  "getApiUrl (snd (createOfflineTransaction pd w)) = getApiUrl w"
  by (simp add: getApiUrl_def)

lemma shouldOperateOffline_after_create [simp]:
  "fst (shouldOperateOffline (snd (createOfflineTransaction pd w)))
     = fst (shouldOperateOffline w)"
  by (simp add: shouldOperateOffline_fst)

lemma processData_customerId [simp]: "customerId (processData td) = customerId td"
  by (simp add: processData_def Let_def split: option.splits)

lemma hasCustomerId_offline [simp]:
  "hasCustomerId (fst (createOfflineTransaction (processData td) w)) = hasCustomerId td"
  by (simp add: hasCustomerId_def createOfflineTransaction_fst)





lemma online_not_manual: "\<not> fst (shouldOperateOffline w) \<Longrightarrow> \<not> offlineMode w"
  by (simp add: shouldOperateOffline_fst)

lemma decode_transaction_failure:
  "decode_transaction (Rejected msg) = Inl (Error msg)"
  "\<not> ok resp \<Longrightarrow>
     decode_transaction (Reply t resp)
       = Inl (Error (''Failed to create transaction: '' @ show_nat (http_status resp)
                     @ '' - '' @ body_text resp))"
  by (simp_all add: decode_transaction_def)

lemma isPending_offline [simp]: "isPending (fst (createOfflineTransaction pd w))"
  by (simp add: isPending_def createOfflineTransaction_fst)

lemma create_queue:
  "getAllOfflineTransactions (snd (create td w))
     = getAllOfflineTransactions
         (snd (processTransaction (fst (shouldOperateOffline w)) td (snd (shouldOperateOffline w))))"
  by (simp add: create_alt Let_def getAllOfflineTransactions_cong [OF updateBalance_transactions])









lemma payment_cents: "amountToCents (Num (25 / 2)) = 1250"
  by code_simp


lemma stamp_digits: "show_nat 1730000000123 = ''1730000000123''"
  by (simp add: show_nat.simps)

lemma processData_payment: "processData payment = payment\<lparr>amount := Num 1250\<rparr>"
  by (simp add: processData_def payment_def toCentsIfNumber_def payment_cents Let_def)

lemma random_digits_int: "show_int 457 = ''457''"
  by (simp add: show_int_def show_nat.simps)






text \<open>
  Claim C3. When \<open>create\<close> runs online and the submission of the transaction fails, by a
  rejected request or by a response that is not a success, \<open>create\<close> does not fail: it
  returns the transaction built by the offline path, pending and marked \<open>offlineCreated\<close>,
  and that transaction is the last element of the cached collection. (The first two
  requests of the call are the health probe and the failed submission.)
\<close>

theorem C3_create_falls_back:
  "\<not> fst (shouldOperateOffline w) \<and>
   ((\<exists>msg. net w (Suc (length (requests w))) (create_request (getApiUrl w) (processData td))
             = Rejected msg) \<or>
    (\<exists>t resp. net w (Suc (length (requests w))) (create_request (getApiUrl w) (processData td))
             = Reply t resp \<and> \<not> ok resp)) \<longrightarrow>
     fst (create td w) =
       (processData td)\<lparr>transactionId := Some (''offline-'' @ show_nat (date_now w) @ ''-''
                                                @ show_int \<lfloor>math_random w * 1000\<rfloor>),
                         status := Some ''pending'', offlineCreated := Some True,
                         createdAt := Some (iso_now w)\<rparr> \<and>
     isPending (fst (create td w)) \<and>
     getAllOfflineTransactions (snd (create td w))
       = getAllOfflineTransactions w @ [fst (create td w)] \<and>
     take (length (requests w) + 2) (requests (snd (create td w)))
       = requests w @ [health_request (getApiUrl w),
                       create_request (getApiUrl w) (processData td)]"
proof
  let ?w1 = "snd (shouldOperateOffline w)"
  let ?pd = "processData td"
  let ?r = "create_request (getApiUrl w) ?pd"
  let ?out = "net w (Suc (length (requests w))) ?r"
  let ?wf = "snd (fetch ?r ?w1)"
  let ?t = "fst (createOfflineTransaction ?pd ?wf)"
  let ?w2 = "snd (createOfflineTransaction ?pd ?wf)"
  assume h: "\<not> fst (shouldOperateOffline w) \<and>
   ((\<exists>msg. ?out = Rejected msg) \<or> (\<exists>t resp. ?out = Reply t resp \<and> \<not> ok resp))"
  then have on: "\<not> fst (shouldOperateOffline w)" by simp
  then have nm: "\<not> offlineMode w" by (rule online_not_manual)
  have rq1: "requests ?w1 = requests w @ [health_request (getApiUrl w)]"
    using nm by (simp add: requests_shouldOperateOffline)
  from h obtain e where fail: "decode_transaction ?out = Inl e"
    using decode_transaction_failure by fastforce
  have pt: "processTransaction False td ?w1 = createOfflineTransaction ?pd ?wf"
    using fail by (simp add: processTransaction_online Let_def rq1)
  have cr: "fst (create td w) = ?t"
    using on by (simp add: create_alt Let_def pt)
  have q: "getAllOfflineTransactions (snd (create td w)) = getAllOfflineTransactions w @ [?t]"
    using on by (simp add: create_queue pt getAllOfflineTransactions_cong [of ?wf w])
  have "\<exists>rs. requests (snd (create td w)) = requests ?w2 @ rs"
    using on updateBalance_requests [of "the (customerId ?t)" "Num (- 1 * centsToAmount (amount ?t))" ?w2]
    by (auto simp add: create_alt Let_def pt)
  then obtain rs where "requests (snd (create td w))
      = (requests w @ [health_request (getApiUrl w), ?r]) @ rs"
    by (auto simp add: rq1)
  then have tk: "take (length (requests w) + 2) (requests (snd (create td w)))
       = requests w @ [health_request (getApiUrl w), ?r]"
    by simp
  show "fst (create td w) =
       (processData td)\<lparr>transactionId := Some (''offline-'' @ show_nat (date_now w) @ ''-''
                                                @ show_int \<lfloor>math_random w * 1000\<rfloor>),
                         status := Some ''pending'', offlineCreated := Some True,
                         createdAt := Some (iso_now w)\<rparr> \<and>
     isPending (fst (create td w)) \<and>
     getAllOfflineTransactions (snd (create td w))
       = getAllOfflineTransactions w @ [fst (create td w)] \<and>
     take (length (requests w) + 2) (requests (snd (create td w)))
       = requests w @ [health_request (getApiUrl w),
                       create_request (getApiUrl w) (processData td)]"
    using q tk by (simp add: cr) (simp add: createOfflineTransaction_fst)
qed


lemma world0_fields [simp]:
  "offlineMode world0 = False" "api_url world0 = None" "offline_transactions world0 = None"
  "offline_customers world0 = None" "offline_customers_by_card world0 = None"
  "writes world0 = []" "requests world0 = []" "net world0 = net_up"
  "date_now world0 = 1730000000123" "math_random world0 = 457 / 1000"
  "iso_now world0 = ''2024-10-27T03:33:20.123Z''"
  by (simp_all add: world0_def)

lemma world_ana_fields [simp]:
  "offlineMode world_ana = False" "api_url world_ana = None"
  "offline_transactions world_ana = None" "requests world_ana = []"
  "net world_ana = net_down" "date_now world_ana = 1730000000123"
  "math_random world_ana = 457 / 1000" "iso_now world_ana = ''2024-10-27T03:33:20.123Z''"
  "offline_customers world_ana = Some [ana]"
  by (simp_all add: world_ana_def cacheOfflineCustomer_def setItem_customers_def
        setItem_customers_by_card_def getAllOfflineCustomers_def Let_def)

lemma queued_payment_fields [simp]:
  "customerId queued_payment = Some 7" "amount queued_payment = Num 1250"
  "hasCustomerId queued_payment" "isPending queued_payment"
  by (simp_all add: queued_payment_def payment_def hasCustomerId_def isPending_def)


theorem C3_create_falls_back_witness:
  "\<not> fst (shouldOperateOffline (world0\<lparr>net := net_post_fails\<rparr>)) \<and>
   net (world0\<lparr>net := net_post_fails\<rparr>) (Suc (length (requests (world0\<lparr>net := net_post_fails\<rparr>))))
       (create_request (getApiUrl (world0\<lparr>net := net_post_fails\<rparr>)) (processData payment))
     = Reply 80 (ok_response\<lparr>http_status := 500\<rparr>) \<and>
   \<not> ok (ok_response\<lparr>http_status := 500\<rparr>) \<and>
   fst (create payment (world0\<lparr>net := net_post_fails\<rparr>)) = queued_payment \<and>
   isPending queued_payment \<and>
   getAllOfflineTransactions (snd (create payment (world0\<lparr>net := net_post_fails\<rparr>)))
     = [queued_payment]"
proof -
  let ?w = "world0\<lparr>net := net_post_fails\<rparr>"
  have on: "\<not> fst (shouldOperateOffline ?w)"
    by (simp add: shouldOperateOffline_fst net_post_fails_def ok_response_def ok_def)
  have out: "net ?w (Suc (length (requests ?w))) (create_request (getApiUrl ?w) (processData payment))
     = Reply 80 (ok_response\<lparr>http_status := 500\<rparr>)"
    by (simp add: net_post_fails_def)
  have nok: "\<not> ok (ok_response\<lparr>http_status := 500\<rparr>)"
    by (simp add: ok_def)
  from C3_create_falls_back [of ?w payment] on out nok
  have "fst (create payment ?w) = queued_payment"
    and "isPending (fst (create payment ?w))"
    and "getAllOfflineTransactions (snd (create payment ?w))
           = getAllOfflineTransactions ?w @ [fst (create payment ?w)]"
    by (auto simp add: processData_payment stamp_digits random_digits_int queued_payment_def)
  then show ?thesis
    using on out nok by (simp add: getAllOfflineTransactions_def)
qed


subsection \<open>Sync Engine\<close>

lemma sync_request_timeout [simp]: "timeout (sync_request u t) = None"
  by (simp add: sync_request_def Let_def)

lemma sync_loop_Cons:
  "sync_loop u (i # rest) ts res w =
     (case sync_attempt (net w (length (requests w)) (sync_request u (ts ! i))) of
        Inr x \<Rightarrow>
          sync_loop u rest (ts[i := (ts ! i)\<lparr>status := Some ''completed'', synced := Some True\<rparr>])
            (res\<lparr>success := success res + 1\<rparr>) (snd (fetch (sync_request u (ts ! i)) w))
      | Inl (Error m) \<Rightarrow>
          sync_loop u rest (ts[i := (ts ! i)\<lparr>syncError := Some m\<rparr>])
            (res\<lparr>failed := failed res + 1\<rparr>) (snd (fetch (sync_request u (ts ! i)) w)))"
  by (simp add: sync_loop.simps(2) Let_def case_prod_beta fetch_fst_no_timeout)

lemma sync_loop_length: "length (fst (sync_loop u is ts res w)) = length ts"
  by (induction "is" arbitrary: ts res w)
     (auto simp add: sync_loop_Cons split: sum.splits error.splits)


lemma sync_loop_untouched:
  "j \<notin> set is \<Longrightarrow> fst (sync_loop u is ts res w) ! j = ts ! j"
  by (induction "is" arbitrary: ts res w)
     (auto simp add: sync_loop_Cons split: sum.splits error.splits)

lemma sync_loop_world:
  "distinct is \<Longrightarrow>
     snd (snd (sync_loop u is ts res w))
       = w\<lparr>requests := requests w @ map (\<lambda>i. sync_request u (ts ! i)) is\<rparr>"
proof (induction "is" arbitrary: ts res w)
  case Nil
  then show ?case by simp
next
  case (Cons i rest)
  then have "\<And>j. j \<in> set rest \<Longrightarrow> i \<noteq> j"
    by auto
  then have "\<And>t. map (\<lambda>j. sync_request u (ts[i := t] ! j)) rest
                = map (\<lambda>j. sync_request u (ts ! j)) rest"
    by (intro map_cong refl) simp
  with Cons show ?case
    by (auto simp add: sync_loop_Cons fetch_snd split: sum.splits error.splits)
qed

lemma sync_loop_step:
  "sync_loop u (i # rest) ts res w =
     (let a = sync_attempt (net w (length (requests w)) (sync_request u (ts ! i)))
      in sync_loop u rest
           (ts[i := (case a of
                       Inr x \<Rightarrow> (ts ! i)\<lparr>status := Some ''completed'', synced := Some True\<rparr>
                     | Inl (Error m) \<Rightarrow> (ts ! i)\<lparr>syncError := Some m\<rparr>)])
           (case a of
              Inr x \<Rightarrow> res\<lparr>success := success res + 1\<rparr>
            | Inl (Error m) \<Rightarrow> res\<lparr>failed := failed res + 1\<rparr>)
           (snd (fetch (sync_request u (ts ! i)) w)))"
  by (simp add: sync_loop_Cons Let_def split: sum.splits error.splits)

lemma sync_loop_touched:
  "distinct is \<Longrightarrow> \<forall>i\<in>set is. i < length ts \<Longrightarrow> k < length is \<Longrightarrow>
     fst (sync_loop u is ts res w) ! (is ! k) =
       (case sync_attempt (net w (length (requests w) + k) (sync_request u (ts ! (is ! k)))) of
          Inr x \<Rightarrow> (ts ! (is ! k))\<lparr>status := Some ''completed'', synced := Some True\<rparr>
        | Inl (Error m) \<Rightarrow> (ts ! (is ! k))\<lparr>syncError := Some m\<rparr>)"
proof (induction "is" arbitrary: ts res w k)
  case Nil
  then show ?case by simp
next
  case (Cons i rest)
  define a where "a = sync_attempt (net w (length (requests w)) (sync_request u (ts ! i)))"
  define t1 where "t1 = (case a of
                       Inr x \<Rightarrow> (ts ! i)\<lparr>status := Some ''completed'', synced := Some True\<rparr>
                     | Inl (Error m) \<Rightarrow> (ts ! i)\<lparr>syncError := Some m\<rparr>)"
  define r1 where "r1 = (case a of
              Inr x \<Rightarrow> res\<lparr>success := success res + 1\<rparr>
            | Inl (Error m) \<Rightarrow> res\<lparr>failed := failed res + 1\<rparr>)"
  define w1 where "w1 = snd (fetch (sync_request u (ts ! i)) w)"
  have step: "sync_loop u (i # rest) ts res w = sync_loop u rest (ts[i := t1]) r1 w1"
    by (simp add: sync_loop_step a_def t1_def r1_def w1_def Let_def)
  have i: "i < length ts" "i \<notin> set rest" using Cons.prems by auto
  show ?case
  proof (cases k)
    case 0
    have "fst (sync_loop u rest (ts[i := t1]) r1 w1) ! i = ts[i := t1] ! i"
      using i by (intro sync_loop_untouched)
    then show ?thesis
      unfolding 0 using i by (simp add: step t1_def a_def split: sum.splits error.splits)
  next
    case (Suc k')
    with Cons.prems have k': "k' < length rest" by simp
    then have neq: "rest ! k' \<noteq> i" using i by auto
    have "fst (sync_loop u rest (ts[i := t1]) r1 w1) ! (rest ! k') =
       (case sync_attempt (net w1 (length (requests w1) + k')
                            (sync_request u (ts[i := t1] ! (rest ! k')))) of
          Inr x \<Rightarrow> (ts[i := t1] ! (rest ! k'))\<lparr>status := Some ''completed'', synced := Some True\<rparr>
        | Inl (Error m) \<Rightarrow> (ts[i := t1] ! (rest ! k'))\<lparr>syncError := Some m\<rparr>)"
      using Cons.prems k' by (intro Cons.IH) auto
    then show ?thesis
      unfolding Suc using neq
      by (simp add: step w1_def fetch_snd split: sum.splits error.splits)
  qed
qed




lemma pendingTransactions_mem:
  "i \<in> set (pendingTransactions ts) \<longleftrightarrow> i < length ts \<and> isPending (ts ! i)"
  by (auto simp add: pendingTransactions_def)

lemma pendingTransactions_distinct: "distinct (pendingTransactions ts)"
  by (simp add: pendingTransactions_def)


lemma syncOfflineTransactions_alt:
  "syncOfflineTransactions w =
     (if fst (shouldOperateOffline w)
      then (Inl (Error ''Cannot sync transactions while in offline mode''),
            snd (shouldOperateOffline w))
      else if pendingTransactions (getAllOfflineTransactions w) = []
      then (Inr \<lparr>success = 0, failed = 0, total = 0\<rparr>, snd (shouldOperateOffline w))
      else
        let ts = getAllOfflineTransactions w;
            sel = pendingTransactions ts;
            r = sync_loop (getApiUrl w) sel ts
                  \<lparr>success = 0, failed = 0, total = length sel\<rparr> (snd (shouldOperateOffline w))
        in (Inr (fst (snd r)), setItem_transactions (fst r) (snd (snd r))))"
  by (simp add: syncOfflineTransactions_def Let_def case_prod_beta
        getAllOfflineTransactions_cong [of "snd (shouldOperateOffline w)" w])

lemma sync_online:
  fixes w :: world
  defines "r \<equiv> sync_loop (getApiUrl w) (pendingTransactions (getAllOfflineTransactions w))
                   (getAllOfflineTransactions w)
                   \<lparr>success = 0, failed = 0,
                      total = length (pendingTransactions (getAllOfflineTransactions w))\<rparr>
                   (snd (shouldOperateOffline w))"
  assumes on: "\<not> fst (shouldOperateOffline w)"
  shows "getAllOfflineTransactions (snd (syncOfflineTransactions w)) = fst r"
    and "fst (syncOfflineTransactions w) = Inr (fst (snd r))"
    and "requests (snd (syncOfflineTransactions w)) = requests (snd (snd r))"
    and "writes (snd (syncOfflineTransactions w))
           = writes w @ (if pendingTransactions (getAllOfflineTransactions w) = [] then []
                         else [''offline_transactions''])"
proof -
  let ?sel = "pendingTransactions (getAllOfflineTransactions w)"
  have world: "snd (snd r) = (snd (shouldOperateOffline w))
      \<lparr>requests := requests (snd (shouldOperateOffline w))
          @ map (\<lambda>i. sync_request (getApiUrl w) (getAllOfflineTransactions w ! i)) ?sel\<rparr>"
    unfolding r_def by (rule sync_loop_world) (rule pendingTransactions_distinct)
  show "getAllOfflineTransactions (snd (syncOfflineTransactions w)) = fst r"
    using on
    by (cases "?sel = []")
       (simp_all add: syncOfflineTransactions_alt Let_def setItem_transactions_def
          getAllOfflineTransactions_def r_def)
  show "fst (syncOfflineTransactions w) = Inr (fst (snd r))"
    using on by (cases "?sel = []") (simp_all add: syncOfflineTransactions_alt Let_def r_def)
  show "requests (snd (syncOfflineTransactions w)) = requests (snd (snd r))"
    using on
    by (cases "?sel = []")
       (simp_all add: syncOfflineTransactions_alt Let_def setItem_transactions_def r_def)
  show "writes (snd (syncOfflineTransactions w))
           = writes w @ (if ?sel = [] then [] else [''offline_transactions''])"
  proof -
    have "writes (snd (snd r)) = writes w"
      by (simp add: world)
    then show ?thesis
      using on
      by (cases "?sel = []")
         (simp_all add: syncOfflineTransactions_alt Let_def setItem_transactions_def
            r_def [symmetric])
  qed
qed


lemma sync_online_position:
  "\<not> fst (shouldOperateOffline w) \<Longrightarrow>
     length (requests (snd (shouldOperateOffline w))) = Suc (length (requests w))"
  by (simp add: shouldOperateOffline_fst requests_shouldOperateOffline)

lemma sync_online_touched:
  assumes on: "\<not> fst (shouldOperateOffline w)"
    and k: "k < length (pendingTransactions (getAllOfflineTransactions w))"
  shows "getAllOfflineTransactions (snd (syncOfflineTransactions w))
           ! (pendingTransactions (getAllOfflineTransactions w) ! k) =
       (case sync_attempt (net w (Suc (length (requests w)) + k)
                (sync_request (getApiUrl w)
                   (getAllOfflineTransactions w ! (pendingTransactions (getAllOfflineTransactions w) ! k)))) of
          Inr x \<Rightarrow> (getAllOfflineTransactions w ! (pendingTransactions (getAllOfflineTransactions w) ! k))
                     \<lparr>status := Some ''completed'', synced := Some True\<rparr>
        | Inl (Error m) \<Rightarrow> (getAllOfflineTransactions w ! (pendingTransactions (getAllOfflineTransactions w) ! k))
                     \<lparr>syncError := Some m\<rparr>)"
proof -
  have "\<forall>i\<in>set (pendingTransactions (getAllOfflineTransactions w)).
          i < length (getAllOfflineTransactions w)"
    by (simp add: pendingTransactions_mem)
  from sync_loop_touched [OF pendingTransactions_distinct this k]
  show ?thesis
    by (simp add: sync_online(1) [OF on] sync_online_position [OF on])
qed


lemma sync_online_length:
  "\<not> fst (shouldOperateOffline w) \<Longrightarrow>
     length (getAllOfflineTransactions (snd (syncOfflineTransactions w)))
       = length (getAllOfflineTransactions w)"
  by (simp add: sync_online(1) sync_loop_length)

lemma sync_online_untouched:
  "\<not> fst (shouldOperateOffline w) \<Longrightarrow>
   j \<notin> set (pendingTransactions (getAllOfflineTransactions w)) \<Longrightarrow>
     getAllOfflineTransactions (snd (syncOfflineTransactions w)) ! j
       = getAllOfflineTransactions w ! j"
  by (simp add: sync_online(1) sync_loop_untouched)

lemma selected_pending:
  "k < length (pendingTransactions ts) \<Longrightarrow>
     pendingTransactions ts ! k < length ts \<and> isPending (ts ! (pendingTransactions ts ! k))"
  using pendingTransactions_mem [of "pendingTransactions ts ! k" ts] by simp


text \<open>
  Claim C10. A sync pass leaves every transaction outside the selection as it was. For a
  selected transaction the body sent is the record without \<open>offlineCreated\<close>; after a
  success the stored record differs from the old one in \<open>status\<close> and \<open>synced\<close> only, so its
  \<open>offlineCreated\<close> is still true, and it is not selected again for the sole reason that
  its \<open>status\<close> is not pending (with \<open>status\<close> pending it would be); after a failure the
  stored record differs in \<open>syncError\<close> only.
\<close>

theorem C10_sync_frame:
  "\<not> fst (shouldOperateOffline w) \<longrightarrow>
     (let ts = getAllOfflineTransactions w;
          sel = pendingTransactions ts;
          u = getApiUrl w;
          n = Suc (length (requests w));
          ts' = getAllOfflineTransactions (snd (syncOfflineTransactions w))
      in length ts' = length ts \<and>
         (\<forall>j<length ts. j \<notin> set sel \<longrightarrow> ts' ! j = ts ! j) \<and>
         (\<forall>k<length sel.
             offlineCreated (ts ! (sel ! k)) = Some True \<and>
             body (sync_request u (ts ! (sel ! k)))
               = TransactionBody ((ts ! (sel ! k))\<lparr>offlineCreated := None\<rparr>) \<and>
             (sync_attempt (net w (n + k) (sync_request u (ts ! (sel ! k)))) = Inr () \<longrightarrow>
                ts' ! (sel ! k)
                  = (ts ! (sel ! k))\<lparr>status := Some ''completed'', synced := Some True\<rparr> \<and>
                offlineCreated (ts' ! (sel ! k)) = Some True \<and>
                sel ! k \<notin> set (pendingTransactions ts') \<and>
                isPending ((ts' ! (sel ! k))\<lparr>status := Some ''pending''\<rparr>)) \<and>
             (\<forall>m. sync_attempt (net w (n + k) (sync_request u (ts ! (sel ! k))))
                     = Inl (Error m) \<longrightarrow>
                ts' ! (sel ! k) = (ts ! (sel ! k))\<lparr>syncError := Some m\<rparr>)))"
proof
  assume on: "\<not> fst (shouldOperateOffline w)"
  let ?ts = "getAllOfflineTransactions w"
  let ?sel = "pendingTransactions ?ts"
  let ?u = "getApiUrl w"
  let ?n = "Suc (length (requests w))"
  let ?ts' = "getAllOfflineTransactions (snd (syncOfflineTransactions w))"
  have untouched: "\<forall>j<length ?ts. j \<notin> set ?sel \<longrightarrow> ?ts' ! j = ?ts ! j"
    by (simp add: sync_online_untouched [OF on])
  have each: "\<forall>k<length ?sel.
             offlineCreated (?ts ! (?sel ! k)) = Some True \<and>
             body (sync_request ?u (?ts ! (?sel ! k)))
               = TransactionBody ((?ts ! (?sel ! k))\<lparr>offlineCreated := None\<rparr>) \<and>
             (sync_attempt (net w (?n + k) (sync_request ?u (?ts ! (?sel ! k)))) = Inr () \<longrightarrow>
                ?ts' ! (?sel ! k)
                  = (?ts ! (?sel ! k))\<lparr>status := Some ''completed'', synced := Some True\<rparr> \<and>
                offlineCreated (?ts' ! (?sel ! k)) = Some True \<and>
                ?sel ! k \<notin> set (pendingTransactions ?ts') \<and>
                isPending ((?ts' ! (?sel ! k))\<lparr>status := Some ''pending''\<rparr>)) \<and>
             (\<forall>m. sync_attempt (net w (?n + k) (sync_request ?u (?ts ! (?sel ! k))))
                     = Inl (Error m) \<longrightarrow>
                ?ts' ! (?sel ! k) = (?ts ! (?sel ! k))\<lparr>syncError := Some m\<rparr>)"
  proof (intro allI impI)
    fix k
    assume k: "k < length ?sel"
    note t = sync_online_touched [OF on k]
    note p = selected_pending [OF k]
    show "offlineCreated (?ts ! (?sel ! k)) = Some True \<and>
             body (sync_request ?u (?ts ! (?sel ! k)))
               = TransactionBody ((?ts ! (?sel ! k))\<lparr>offlineCreated := None\<rparr>) \<and>
             (sync_attempt (net w (?n + k) (sync_request ?u (?ts ! (?sel ! k)))) = Inr () \<longrightarrow>
                ?ts' ! (?sel ! k)
                  = (?ts ! (?sel ! k))\<lparr>status := Some ''completed'', synced := Some True\<rparr> \<and>
                offlineCreated (?ts' ! (?sel ! k)) = Some True \<and>
                ?sel ! k \<notin> set (pendingTransactions ?ts') \<and>
                isPending ((?ts' ! (?sel ! k))\<lparr>status := Some ''pending''\<rparr>)) \<and>
             (\<forall>m. sync_attempt (net w (?n + k) (sync_request ?u (?ts ! (?sel ! k))))
                     = Inl (Error m) \<longrightarrow>
                ?ts' ! (?sel ! k) = (?ts ! (?sel ! k))\<lparr>syncError := Some m\<rparr>)"
      using t p
      by (auto simp add: pendingTransactions_mem isPending_def sync_request_def Let_def)
  qed
  show "(let ts = getAllOfflineTransactions w;
          sel = pendingTransactions ts;
          u = getApiUrl w;
          n = Suc (length (requests w));
          ts' = getAllOfflineTransactions (snd (syncOfflineTransactions w))
      in length ts' = length ts \<and>
         (\<forall>j<length ts. j \<notin> set sel \<longrightarrow> ts' ! j = ts ! j) \<and>
         (\<forall>k<length sel.
             offlineCreated (ts ! (sel ! k)) = Some True \<and>
             body (sync_request u (ts ! (sel ! k)))
               = TransactionBody ((ts ! (sel ! k))\<lparr>offlineCreated := None\<rparr>) \<and>
             (sync_attempt (net w (n + k) (sync_request u (ts ! (sel ! k)))) = Inr () \<longrightarrow>
                ts' ! (sel ! k)
                  = (ts ! (sel ! k))\<lparr>status := Some ''completed'', synced := Some True\<rparr> \<and>
                offlineCreated (ts' ! (sel ! k)) = Some True \<and>
                sel ! k \<notin> set (pendingTransactions ts') \<and>
                isPending ((ts' ! (sel ! k))\<lparr>status := Some ''pending''\<rparr>)) \<and>
             (\<forall>m. sync_attempt (net w (n + k) (sync_request u (ts ! (sel ! k))))
                     = Inl (Error m) \<longrightarrow>
                ts' ! (sel ! k) = (ts ! (sel ! k))\<lparr>syncError := Some m\<rparr>)))"
    unfolding Let_def
    using sync_online_length [OF on] untouched each
    by (intro conjI) assumption+
qed

lemma world_sync_fields [simp]:
  "offlineMode world_sync = False" "api_url world_sync = None"
  "offline_transactions world_sync = Some [queued_payment, paid_online, queued_reload]"
  "requests world_sync = []" "net world_sync = net_sync" "writes world_sync = []"
  by (simp_all add: world_sync_def)

lemma example_pending [simp]:
  "isPending queued_payment" "\<not> isPending paid_online" "isPending queued_reload"
  by (simp_all add: isPending_def queued_payment_def paid_online_def queued_reload_def)

lemma world_sync_online: "\<not> fst (shouldOperateOffline world_sync)"
  by (simp add: shouldOperateOffline_fst net_sync_def ok_response_def ok_def)

lemma world_sync_selection:
  "pendingTransactions (getAllOfflineTransactions world_sync) = [0, 2]"
  by (simp add: pendingTransactions_def getAllOfflineTransactions_def upt_rec [of 0] upt_rec [of 1]
        upt_rec [of 2] upt_rec [of 3])

lemma list_of_three: "length xs = 3 \<Longrightarrow> xs = [xs ! 0, xs ! 1, xs ! 2]"
  by (auto simp add: numeral_3_eq_3 length_Suc_conv)

lemma world_sync_queue:
  "getAllOfflineTransactions world_sync = [queued_payment, paid_online, queued_reload]"
  by (simp add: getAllOfflineTransactions_def)

lemma example_selection:
  "pendingTransactions [queued_payment, paid_online, queued_reload] = [0, 2]"
  using world_sync_selection by (simp add: world_sync_queue)

lemma world_sync_url: "getApiUrl world_sync = DEFAULT_API_URL"
  by (simp add: getApiUrl_def)

lemma world_sync_attempts:
  "sync_attempt (net_sync (Suc 0) r) = Inr ()"
  "sync_attempt (net_sync (Suc (Suc 0)) r) = Inl (Error ''Server returned 500'')"
  by (simp_all add: net_sync_def sync_attempt_def ok_def ok_response_def show_nat.simps)


theorem C10_sync_frame_witness:
  "\<not> fst (shouldOperateOffline world_sync) \<and>
   getAllOfflineTransactions (snd (syncOfflineTransactions world_sync))
     = [queued_payment\<lparr>status := Some ''completed'', synced := Some True\<rparr>,
        paid_online,
        queued_reload\<lparr>syncError := Some ''Server returned 500''\<rparr>] \<and>
   offlineCreated (queued_payment\<lparr>status := Some ''completed'', synced := Some True\<rparr>)
     = Some True \<and>
   body (sync_request DEFAULT_API_URL queued_payment)
     = TransactionBody (queued_payment\<lparr>offlineCreated := None\<rparr>) \<and>
   pendingTransactions (getAllOfflineTransactions (snd (syncOfflineTransactions world_sync)))
     = [2]"
proof -
  note on = world_sync_online
  note T = C10_sync_frame [of world_sync, unfolded Let_def, THEN mp, OF on]
  let ?ts' = "getAllOfflineTransactions (snd (syncOfflineTransactions world_sync))"
  from T have len: "length ?ts' = 3"
    by (simp add: world_sync_queue)
  from T have "\<forall>j<3. j \<notin> set [0, 2] \<longrightarrow> ?ts' ! j = [queued_payment, paid_online, queued_reload] ! j"
    by (simp add: example_selection world_sync_queue)
  from this [rule_format, of 1] have t1: "?ts' ! 1 = paid_online"
    by simp
  from T have each: "\<forall>k<2.
      body (sync_request DEFAULT_API_URL ([queued_payment, paid_online, queued_reload] ! ([0, 2] ! k)))
        = TransactionBody (([queued_payment, paid_online, queued_reload] ! ([0, 2] ! k))\<lparr>offlineCreated := None\<rparr>) \<and>
      (sync_attempt (net_sync (Suc k)
          (sync_request DEFAULT_API_URL ([queued_payment, paid_online, queued_reload] ! ([0, 2] ! k))))
         = Inr () \<longrightarrow>
       ?ts' ! ([0, 2] ! k)
         = ([queued_payment, paid_online, queued_reload] ! ([0, 2] ! k))
             \<lparr>status := Some ''completed'', synced := Some True\<rparr>) \<and>
      (\<forall>m. sync_attempt (net_sync (Suc k)
          (sync_request DEFAULT_API_URL ([queued_payment, paid_online, queued_reload] ! ([0, 2] ! k))))
         = Inl (Error m) \<longrightarrow>
       ?ts' ! ([0, 2] ! k)
         = ([queued_payment, paid_online, queued_reload] ! ([0, 2] ! k))\<lparr>syncError := Some m\<rparr>)"
    by (simp add: example_selection world_sync_queue world_sync_url)
  from each [rule_format, of 0] each [rule_format, of 1]
  have t: "?ts' ! 0 = queued_payment\<lparr>status := Some ''completed'', synced := Some True\<rparr>"
    "?ts' ! 2 = queued_reload\<lparr>syncError := Some ''Server returned 500''\<rparr>"
    "body (sync_request DEFAULT_API_URL queued_payment)
       = TransactionBody (queued_payment\<lparr>offlineCreated := None\<rparr>)"
    by (simp_all add: world_sync_attempts)
  have ts': "?ts' = [queued_payment\<lparr>status := Some ''completed'', synced := Some True\<rparr>,
        paid_online, queued_reload\<lparr>syncError := Some ''Server returned 500''\<rparr>]"
    using list_of_three [OF len] t1 t by simp
  have "pendingTransactions ?ts' = [2]"
    unfolding ts'
    by (simp add: pendingTransactions_def isPending_def queued_payment_def paid_online_def
          queued_reload_def upt_rec [of 0] upt_rec [of 1] upt_rec [of 2] upt_rec [of 3])
  with on ts' t(3) show ?thesis
    by (simp add: queued_payment_def)
qed

end
